theory Spec2Isabelle
  imports Complex_Main
begin

section \<open>The benchmark driver \<open>tools/run_on_app.py\<close>\<close>

text \<open>
  The driver is Python 2 (\<open>iteritems\<close>, no \<open>division\<close> import): its integers are
  unbounded, so they are \<^typ>\<open>int\<close>, and \<open>/\<close> on two integers is floor division,
  which is \<open>div\<close> on \<^typ>\<open>int\<close> (both round towards minus infinity).
\<close>

subsection \<open>Constants\<close>

definition APPS :: "string list" where
  "APPS = [''gmscore'', ''nest'', ''youtube'', ''gmail'', ''chrome'', ''r8'', ''iosched'']"

text \<open>The magic exit code that signals that the program ran out of memory.\<close>

definition OOM_EXIT_CODE :: int where
  "OOM_EXIT_CODE = 42"

text \<open>\<open>Popen.returncode\<close> is \<open>-N\<close> for a child terminated by signal \<open>N\<close>.\<close>

definition TIMEOUT_KILL_CODE :: int where
  "TIMEOUT_KILL_CODE = - 9"

definition FIND_MIN_XMX_FILE :: string where
  "FIND_MIN_XMX_FILE = ''find_min_xmx_results''"

definition FIND_MIN_XMX_DIR :: string where
  "FIND_MIN_XMX_DIR = ''find_min_xmx''"

subsection \<open>Options\<close>

text \<open>
  The fields of the \<open>optparse\<close> result that \<open>find_min_xmx\<close>, \<open>get_version_and_data\<close>
  and \<open>get_type\<close> read. An option without a default is \<open>None\<close> when absent;
  \<open>--compiler-build\<close> defaults to \<open>lib\<close>, \<open>--find-min-xmx-range-size\<close> to \<open>32\<close> and
  \<open>--find-min-xmx-archive\<close> to \<open>False\<close>, so these three always hold a value.
\<close>

record options =
  compiler :: "string option"
  compiler_build :: string
  app :: "string option"
  version :: "string option"
  type :: "string option"
  find_min_xmx_min_memory :: "int option"
  find_min_xmx_max_memory :: "int option"
  find_min_xmx_range_size :: int
  find_min_xmx_archive :: bool

text \<open>Python's truth value of an optional integer: \<open>None\<close> and \<open>0\<close> are false.\<close>

definition truthy :: "int option \<Rightarrow> bool" where
  "truthy v = (case v of None \<Rightarrow> False | Some n \<Rightarrow> n \<noteq> 0)"

text \<open>\<open>x or d\<close> on an optional string: \<open>None\<close> and the empty string are false.\<close>

definition str_or :: "string option \<Rightarrow> string \<Rightarrow> string" where
  "str_or v d = (case v of None \<Rightarrow> d | Some s \<Rightarrow> if s = [] then d else s)"

text \<open>What \<open>ParseOptions\<close> gives for an empty command line.\<close>

definition defaults :: options where
  "defaults =
    \<lparr>compiler = None, compiler_build = ''lib'', app = None, version = None,
     type = None, find_min_xmx_min_memory = None, find_min_xmx_max_memory = None,
     find_min_xmx_range_size = 32, find_min_xmx_archive = False\<rparr>"

subsection \<open>Exceptions and what a function hands back\<close>

datatype exn = AssertionError | AttributeError | Exception string

datatype exit = Returned int | Raised exn

subsection \<open>\<open>get_version_and_data\<close> and \<open>get_type\<close>\<close>

text \<open>Python's \<open>sep.join(xs)\<close>.\<close>

fun str_join :: "string \<Rightarrow> string list \<Rightarrow> string" where
  "str_join sep [] = []"
| "str_join sep [x] = x"
| "str_join sep (x # y # ys) = x @ sep @ str_join sep (y # ys)"

text \<open>
  The data modules (\<open>gmscore_data\<close>, ...) are not part of the sources; the second
  component is the module's name.
\<close>

definition get_version_and_data :: "options \<Rightarrow> exn + (string \<times> string)" where
  "get_version_and_data opts =
    (if app opts = Some ''gmscore'' then Inr (str_or (version opts) ''v9'', ''gmscore_data'')
     else if app opts = Some ''nest'' then Inr (str_or (version opts) ''20180926'', ''nest_data'')
     else if app opts = Some ''youtube'' then Inr (str_or (version opts) ''12.22'', ''youtube_data'')
     else if app opts = Some ''chrome'' then Inr (str_or (version opts) ''180917'', ''chrome_data'')
     else if app opts = Some ''gmail'' then Inr (str_or (version opts) ''170604.16'', ''gmail_data'')
     else if app opts = Some ''r8'' then Inr (str_or (version opts) ''cf'', ''r8_data'')
     else if app opts = Some ''iosched'' then Inr (str_or (version opts) ''2019'', ''iosched_data'')
     else Inl (Exception (''You need to specify '--app='' @ str_join ''|'' APPS @ [CHR 0x27])))"

definition get_type :: "options \<Rightarrow> string" where
  "get_type opts =
    (case type opts of
       None \<Rightarrow> if compiler opts = Some ''r8'' then ''deploy'' else ''proguarded''
     | Some t \<Rightarrow> if t = [] then (if compiler opts = Some ''r8'' then ''deploy'' else ''proguarded'')
                else t)"

subsection \<open>The exit code of \<open>run_with_options\<close> once the tool has run\<close>


fun starts_with :: "string \<Rightarrow> string \<Rightarrow> bool" where
  "starts_with [] text = True"
| "starts_with (c # cs) [] = False"
| "starts_with (c # cs) (d # ds) = (c = d \<and> starts_with cs ds)"

text \<open>Python's \<open>needle in text\<close> on strings.\<close>

fun str_in :: "string \<Rightarrow> string \<Rightarrow> bool" where
  "str_in needle [] = (needle = [])"
| "str_in needle (d # ds) = (starts_with needle (d # ds) \<or> str_in needle ds)"



text \<open>
  The four ways \<open>find_min_xmx\<close> reads an exit code (its lines 256 to 267), in the
  order of its tests.
\<close>

datatype outcome = Success | OutOfMemory | Timeout | OtherFailure int

definition outcome_of :: "int \<Rightarrow> outcome" where
  "outcome_of code =
    (if code \<noteq> 0 \<and> code \<notin> set [OOM_EXIT_CODE, TIMEOUT_KILL_CODE] then OtherFailure code
     else if code = 0 then Success
     else if code = TIMEOUT_KILL_CODE then Timeout
     else OutOfMemory)"

subsection \<open>The state of \<open>find_min_xmx\<close>\<close>

text \<open>
  The lines \<open>find_min_xmx\<close> prints, the last two kinds through
  \<open>utils.get_HEAD_sha1\<close>. The elapsed time of \<open>Running took: ... ms\<close> is wall clock
  time and is left out. What \<open>run_with_options\<close> prints during an attempt is not
  recorded.
\<close>

datatype line =
    Progress int int int
  | RunningTook
  | NonOomTimeoutError
  | TimeoutContinue
  | FoundRange int int
  | Running string
  | EnterDirectory string

text \<open>
  What the function does to the world: the calls of \<open>run_with_options\<close> it made (the
  ceiling of \<open>-Xmx<ceiling>M\<close> and the exit code that came back), the lines it printed
  and the values it archived (file name, destination, value).
\<close>

record effects =
  attempts :: "(int \<times> int) list"
  printed :: "line list"
  archived :: "(string \<times> string \<times> line) list"

record search = effects +
  not_working :: int
  working :: int
  exit_code :: int

text \<open>
  \<open>run_with_options(options, [], ['-Xmx<ceiling>M'])\<close> as the loop sees it: the exit
  code of the \<open>k\<close>-th call (counted from 0) at a ceiling. The index lets the same
  ceiling give different codes in different calls. A call that raises instead of
  returning a code (as it does when \<open>--app\<close> is missing) is not covered.
\<close>

type_synonym runner = "nat \<Rightarrow> int \<Rightarrow> int"

subsection \<open>\<open>find_min_xmx\<close>\<close>

text \<open>Lines 235 to 244: the bounds the search starts from.\<close>

definition initial_not_working :: "options \<Rightarrow> int" where
  "initial_not_working opts =
    (if truthy (find_min_xmx_min_memory opts) then the (find_min_xmx_min_memory opts)
     else if compiler opts = Some ''d8'' then 128
     else 1024)"

definition initial_working :: "options \<Rightarrow> int" where
  "initial_working opts =
    (if truthy (find_min_xmx_max_memory opts) then the (find_min_xmx_max_memory opts)
     else 1024 * 8)"

definition start :: "int \<Rightarrow> int \<Rightarrow> search" where
  "start nw w =
    \<lparr>attempts = [], printed = [], archived = [], not_working = nw, working = w, exit_code = 0\<rparr>"

text \<open>Line 248.\<close>

definition next_candidate :: "int \<Rightarrow> int \<Rightarrow> int" where
  "next_candidate w nw = w - ((w - nw) div 2)"

text \<open>
  Lines 248 to 267, one pass through the body of the loop. \<open>Some e\<close> leaves the
  function at once (\<open>return 2\<close>, or the \<open>assert\<close> of line 266 failing); \<open>None\<close> goes
  back to the test of the loop.
\<close>

definition loop_body :: "runner \<Rightarrow> search \<Rightarrow> exit option \<times> search" where
  "loop_body run s =
    (let candidate = next_candidate (working s) (not_working s);
         s1 = s\<lparr>printed := printed s @ [Progress (working s) (not_working s) candidate]\<rparr>;
         code = run (length (attempts s1)) candidate;
         s2 = s1\<lparr>exit_code := code,
                 attempts := attempts s1 @ [(candidate, code)],
                 printed := printed s1 @ [RunningTook]\<rparr>
     in if code \<noteq> 0 \<and> code \<notin> set [OOM_EXIT_CODE, TIMEOUT_KILL_CODE] then
          (Some (Returned 2), s2\<lparr>printed := printed s2 @ [NonOomTimeoutError]\<rparr>)
        else if code = 0 then
          (None, s2\<lparr>working := candidate\<rparr>)
        else if code = TIMEOUT_KILL_CODE then
          (None, s2\<lparr>printed := printed s2 @ [TimeoutContinue], not_working := candidate\<rparr>)
        else if code = OOM_EXIT_CODE then
          (None, s2\<lparr>not_working := candidate\<rparr>)
        else (Some (Raised AssertionError), s2))"

text \<open>
  Lines 247 to 267, the \<open>while\<close> loop. It need not end, so it is a partial function:
  \<open>None\<close> is a loop that runs forever.
\<close>

partial_function (option) search_loop ::
  "runner \<Rightarrow> int \<Rightarrow> search \<Rightarrow> (exit option \<times> search) option" where
  "search_loop run range_size s =
    (if working s - not_working s > range_size then
       (case loop_body run s of
          (Some e, s') \<Rightarrow> Some (Some e, s')
        | (None, s') \<Rightarrow> search_loop run range_size s')
     else Some (None, s))"

text \<open>
  Python 2's \<open>os.path.join\<close> on POSIX: a component that starts with a slash
  discards what came before it.
\<close>

fun os_path_join :: "string \<Rightarrow> string list \<Rightarrow> string" where
  "os_path_join path [] = path"
| "os_path_join path (b # bs) =
    os_path_join
      (if starts_with ''/'' b then b
       else if path = [] \<or> last path = CHR ''/'' then path @ b
       else path @ ''/'' @ b)
      bs"

text \<open>
  What the archive step takes from outside the sources: the root of the repository,
  the current directory, the output of \<open>git rev-parse HEAD\<close> with the white space
  around it stripped, and the constant \<open>utils.R8_TEST_RESULTS_BUCKET\<close>.
  \<open>utils.archive_value\<close> is not in the sources either; its call is recorded in
  \<^const>\<open>archived\<close>.
\<close>

record env =
  REPO_ROOT :: string
  cwd :: string
  HEAD_sha1 :: string
  R8_TEST_RESULTS_BUCKET :: string

text \<open>
  \<open>utils.get_HEAD_sha1\<close>: the lines it prints (through \<open>PrintCmd\<close> and
  \<open>ChangedWorkingDirectory\<close>) and the hash it returns. The \<open>git\<close> command is taken to
  succeed.
\<close>

definition get_HEAD_sha1 :: "env \<Rightarrow> line list \<times> string" where
  "get_HEAD_sha1 e =
    ([Running (str_join '' '' [''git'', ''rev-parse'', ''HEAD'']),
      EnterDirectory (REPO_ROOT e), EnterDirectory (cwd e)],
     HEAD_sha1 e)"

text \<open>Lines 269 to 288: what follows the loop when it ends by its test.\<close>

definition report :: "env \<Rightarrow> options \<Rightarrow> search \<Rightarrow> exit \<times> search" where
  "report e opts s =
    (if \<not> (working s - not_working s \<le> find_min_xmx_range_size opts) then
       (Raised AssertionError, s)
     else
       let found_range = FoundRange (not_working s) (working s);
           s1 = s\<lparr>printed := printed s @ [found_range]\<rparr>
       in if find_min_xmx_archive opts then
            let sha = snd (get_HEAD_sha1 e);
                s2 = s1\<lparr>printed := printed s1 @ fst (get_HEAD_sha1 e)\<rparr>
            in (case get_version_and_data opts of
                  Inl x \<Rightarrow> (Raised x, s2)
                | Inr (vers, data) \<Rightarrow>
                    (case (compiler opts, app opts) of
                       (Some c, Some a) \<Rightarrow>
                         let destination =
                               os_path_join (R8_TEST_RESULTS_BUCKET e)
                                 [FIND_MIN_XMX_DIR, sha, c, compiler_build opts, a,
                                  vers, get_type opts];
                             gs_destination = ''gs://'' @ destination
                         in (Returned 0,
                             s2\<lparr>archived :=
                                  archived s2 @
                                  [(FIND_MIN_XMX_FILE, gs_destination, found_range)]\<rparr>)
                     | _ \<Rightarrow> (Raised AttributeError, s2)))
          else (Returned 0, s1))"

text \<open>
  The whole function. \<open>None\<close> is a search that never ends; otherwise the result is
  how the function was left and what it did to the world.
\<close>

definition find_min_xmx ::
  "env \<Rightarrow> runner \<Rightarrow> options \<Rightarrow> string list \<Rightarrow> (exit \<times> effects) option" where
  "find_min_xmx e run opts args =
    (if length args \<noteq> 0 then
       Some (Raised AssertionError, \<lparr>attempts = [], printed = [], archived = []\<rparr>)
     else
       (case search_loop run (find_min_xmx_range_size opts)
               (start (initial_not_working opts) (initial_working opts)) of
          None \<Rightarrow> None
        | Some (Some x, s) \<Rightarrow> Some (x, effects.truncate s)
        | Some (None, s) \<Rightarrow>
            (case report e opts s of (x, s') \<Rightarrow> Some (x, effects.truncate s'))))"

text \<open>The candidate of the next pass and the exit code its run gives.\<close>

abbreviation candidate_of :: "search \<Rightarrow> int" where
  "candidate_of s \<equiv> next_candidate (working s) (not_working s)"

abbreviation code_of :: "runner \<Rightarrow> search \<Rightarrow> int" where
  "code_of run s \<equiv> run (length (attempts s)) (candidate_of s)"

text \<open>
  \<open>reaches run range_size s t\<close>: started in \<open>s\<close>, the loop stands at its test in
  state \<open>t\<close> after some number of passes, none of which left the function.
\<close>

inductive reaches :: "runner \<Rightarrow> int \<Rightarrow> search \<Rightarrow> search \<Rightarrow> bool"
  for run :: runner and range_size :: int and s :: search where
  reaches_start: "reaches run range_size s s"
| reaches_step:
    "reaches run range_size s t \<Longrightarrow> range_size < working t - not_working t \<Longrightarrow>
     loop_body run t = (None, t') \<Longrightarrow> reaches run range_size s t'"

section \<open>Properties\<close>

subsection \<open>Unfolding the loop\<close>

lemmas exit_codes = OOM_EXIT_CODE_def TIMEOUT_KILL_CODE_def

lemma loop_stop:
  "\<not> range_size < working s - not_working s \<Longrightarrow>
   search_loop run range_size s = Some (None, s)"
  by (subst search_loop.simps) simp

lemma loop_leave:
  "range_size < working s - not_working s \<Longrightarrow> fst (loop_body run s) = Some e \<Longrightarrow>
   search_loop run range_size s = Some (Some e, snd (loop_body run s))"
  by (subst search_loop.simps) (simp add: case_prod_beta)

lemma loop_again:
  "range_size < working s - not_working s \<Longrightarrow> fst (loop_body run s) = None \<Longrightarrow>
   search_loop run range_size s = search_loop run range_size (snd (loop_body run s))"
  by (subst search_loop.simps) (simp add: case_prod_beta)

subsection \<open>One pass through the body, by exit code\<close>

lemma body_success:
  "code_of run s = 0 \<Longrightarrow>
   loop_body run s =
     (None, s\<lparr>attempts := attempts s @ [(candidate_of s, 0)],
              printed := printed s @
                [Progress (working s) (not_working s) (candidate_of s), RunningTook],
              working := candidate_of s, exit_code := 0\<rparr>)"
  by (simp add: loop_body_def Let_def)

lemma body_timeout:
  "code_of run s = TIMEOUT_KILL_CODE \<Longrightarrow>
   loop_body run s =
     (None, s\<lparr>attempts := attempts s @ [(candidate_of s, TIMEOUT_KILL_CODE)],
              printed := printed s @
                [Progress (working s) (not_working s) (candidate_of s), RunningTook,
                 TimeoutContinue],
              not_working := candidate_of s, exit_code := TIMEOUT_KILL_CODE\<rparr>)"
  by (simp add: loop_body_def Let_def exit_codes)

lemma body_oom:
  "code_of run s = OOM_EXIT_CODE \<Longrightarrow>
   loop_body run s =
     (None, s\<lparr>attempts := attempts s @ [(candidate_of s, OOM_EXIT_CODE)],
              printed := printed s @
                [Progress (working s) (not_working s) (candidate_of s), RunningTook],
              not_working := candidate_of s, exit_code := OOM_EXIT_CODE\<rparr>)"
  by (simp add: loop_body_def Let_def exit_codes)

lemma body_other:
  "code_of run s \<noteq> 0 \<Longrightarrow> code_of run s \<noteq> OOM_EXIT_CODE \<Longrightarrow>
   code_of run s \<noteq> TIMEOUT_KILL_CODE \<Longrightarrow>
   loop_body run s =
     (Some (Returned 2),
      s\<lparr>attempts := attempts s @ [(candidate_of s, code_of run s)],
        printed := printed s @
          [Progress (working s) (not_working s) (candidate_of s), RunningTook,
           NonOomTimeoutError],
        exit_code := code_of run s\<rparr>)"
  by (simp add: loop_body_def Let_def)

lemma body_cases:
  obtains (success) "code_of run s = 0"
  | (timeout) "code_of run s = TIMEOUT_KILL_CODE"
  | (oom) "code_of run s = OOM_EXIT_CODE"
  | (other) "code_of run s \<noteq> 0" "code_of run s \<noteq> OOM_EXIT_CODE"
      "code_of run s \<noteq> TIMEOUT_KILL_CODE"
  by blast

lemma candidate_between:
  "1 \<le> range_size \<Longrightarrow> range_size < w - nw \<Longrightarrow>
   nw < next_candidate w nw \<and> next_candidate w nw < w"
  unfolding next_candidate_def by linarith

lemma body_continue_cases:
  assumes "loop_body run t = (None, t')"
  obtains (success) "code_of run t = 0"
      "t' = t\<lparr>attempts := attempts t @ [(candidate_of t, 0)],
              printed := printed t @
                [Progress (working t) (not_working t) (candidate_of t), RunningTook],
              working := candidate_of t, exit_code := 0\<rparr>"
  | (timeout) "code_of run t = TIMEOUT_KILL_CODE"
      "t' = t\<lparr>attempts := attempts t @ [(candidate_of t, TIMEOUT_KILL_CODE)],
              printed := printed t @
                [Progress (working t) (not_working t) (candidate_of t), RunningTook,
                 TimeoutContinue],
              not_working := candidate_of t, exit_code := TIMEOUT_KILL_CODE\<rparr>"
  | (oom) "code_of run t = OOM_EXIT_CODE"
      "t' = t\<lparr>attempts := attempts t @ [(candidate_of t, OOM_EXIT_CODE)],
              printed := printed t @
                [Progress (working t) (not_working t) (candidate_of t), RunningTook],
              not_working := candidate_of t, exit_code := OOM_EXIT_CODE\<rparr>"
proof (cases rule: body_cases [of run t])
  case success
  with assms that(1) show ?thesis by (simp add: body_success)
next
  case timeout
  with assms that(2) show ?thesis by (simp add: body_timeout)
next
  case oom
  with assms that(3) show ?thesis by (simp add: body_oom)
next
  case other
  with assms show ?thesis by (simp add: body_other)
qed


lemma body_shrinks:
  assumes "1 \<le> range_size" "range_size < working t - not_working t"
    and "loop_body run t = (None, t')"
  shows "working t' - not_working t' < working t - not_working t"
  using assms(3)
proof (cases rule: body_continue_cases)
  case success
  with candidate_between [OF assms(1,2)] show ?thesis by simp
next
  case timeout
  with candidate_between [OF assms(1,2)] show ?thesis by simp
next
  case oom
  with candidate_between [OF assms(1,2)] show ?thesis by simp
qed


lemma search_loop_total:
  assumes rng: "1 \<le> range_size"
    and inv: "I s"
    and keep: "\<And>t t'. I t \<Longrightarrow> range_size < working t - not_working t \<Longrightarrow>
                 loop_body run t = (None, t') \<Longrightarrow> I t'"
  shows "\<exists>r u. search_loop run range_size s = Some (r, u) \<and>
           (case r of
              None \<Rightarrow> I u \<and> working u - not_working u \<le> range_size
            | Some e \<Rightarrow> \<exists>t. I t \<and> range_size < working t - not_working t \<and>
                          loop_body run t = (Some e, u))"
  using inv
proof (induction "nat (working s - not_working s)" arbitrary: s rule: less_induct)
  case less
  show ?case
  proof (cases "range_size < working s - not_working s")
    case False
    with less.prems show ?thesis by (simp add: loop_stop)
  next
    case True
    obtain r s' where body: "loop_body run s = (r, s')" by (cases "loop_body run s")
    show ?thesis
    proof (cases r)
      case None
      with body have cont: "loop_body run s = (None, s')" by simp
      have "I s'" using keep [OF less.prems True cont] .
      moreover have "nat (working s' - not_working s') < nat (working s - not_working s)"
        using body_shrinks [OF rng True cont] rng True by linarith
      ultimately have "\<exists>r u. search_loop run range_size s' = Some (r, u) \<and>
           (case r of
              None \<Rightarrow> I u \<and> working u - not_working u \<le> range_size
            | Some e \<Rightarrow> \<exists>t. I t \<and> range_size < working t - not_working t \<and>
                          loop_body run t = (Some e, u))"
        using less.hyps by blast
      moreover have "search_loop run range_size s = search_loop run range_size s'"
        using loop_again [OF True, of run] cont by simp
      ultimately show ?thesis by simp
    next
      case (Some e)
      with body True have "search_loop run range_size s = Some (Some e, s')"
        using loop_leave [of range_size s run e] by simp
      with Some body True less.prems show ?thesis by auto
    qed
  qed
qed

subsection \<open>The candidate\<close>

text \<open>
  C4. While the loop runs with a tolerance of at least 1, that is while
  \<open>working - not_working > range_size \<ge> 1\<close>, the candidate
  \<open>working - (working - not_working) div 2\<close> lies strictly between the two bounds.
  So whichever bound the pass moves to the candidate, the interval gets strictly
  narrower, and with such a tolerance the loop ends from every state, whatever the
  exit codes of the attempts are.
\<close>

theorem candidate_strict_progress:
  assumes "1 \<le> range_size" "range_size < w - nw"
  shows "nw < next_candidate w nw \<and> next_candidate w nw < w \<and>
         next_candidate w nw - nw < w - nw \<and> w - next_candidate w nw < w - nw \<and>
         (\<exists>y. search_loop run range_size s = Some y)"
proof -
  have "\<exists>r u. search_loop run range_size s = Some (r, u) \<and>
          (case r of
             None \<Rightarrow> True \<and> working u - not_working u \<le> range_size
           | Some e \<Rightarrow> \<exists>t. True \<and> range_size < working t - not_working t \<and>
                         loop_body run t = (Some e, u))"
    by (rule search_loop_total [where I = "\<lambda>t. True", OF assms(1)]) simp_all
  then have "\<exists>y. search_loop run range_size s = Some y" by blast
  moreover from assms have "nw < next_candidate w nw \<and> next_candidate w nw < w \<and>
      next_candidate w nw - nw < w - nw \<and> w - next_candidate w nw < w - nw"
    unfolding next_candidate_def by linarith
  ultimately show ?thesis by simp
qed

theorem candidate_strict_progress_witness:
  "(128::int) < next_candidate 8192 128 \<and> next_candidate 8192 128 < 8192 \<and>
   next_candidate 8192 128 - 128 < 8192 - 128 \<and> 8192 - next_candidate 8192 128 < 8192 - 128 \<and>
   (\<exists>y. search_loop (\<lambda>k c. 0) 32 (start 128 8192) = Some y)"
  using candidate_strict_progress [of 32 8192 128 "\<lambda>k c. 0" "start 128 8192"] by simp

subsection \<open>The bounds the search starts from\<close>

lemma report_ignores_bounds:
  "report e (opts\<lparr>find_min_xmx_min_memory := v\<rparr>) s = report e opts s"
  "report e (opts\<lparr>find_min_xmx_max_memory := v\<rparr>) s = report e opts s"
proof -
  have "get_version_and_data (opts\<lparr>find_min_xmx_min_memory := v\<rparr>) = get_version_and_data opts"
    and "get_version_and_data (opts\<lparr>find_min_xmx_max_memory := v\<rparr>) = get_version_and_data opts"
    and "get_type (opts\<lparr>find_min_xmx_min_memory := v\<rparr>) = get_type opts"
    and "get_type (opts\<lparr>find_min_xmx_max_memory := v\<rparr>) = get_type opts"
    by (simp_all add: get_version_and_data_def get_type_def)
  then show "report e (opts\<lparr>find_min_xmx_min_memory := v\<rparr>) s = report e opts s"
    and "report e (opts\<lparr>find_min_xmx_max_memory := v\<rparr>) s = report e opts s"
    by (auto simp add: report_def Let_def split: sum.splits option.splits prod.splits)
qed

text \<open>
  C10. The overrides are tested for their truth value, so an override of 0 is the
  same as no override: the lower bound is then 128 for \<open>d8\<close> and 1024 for any other
  compiler, the upper bound 8192, and the whole function does what it does without
  the override.
\<close>

theorem zero_override_is_default:
  "initial_not_working (opts\<lparr>find_min_xmx_min_memory := Some 0\<rparr>) =
     initial_not_working (opts\<lparr>find_min_xmx_min_memory := None\<rparr>) \<and>
   initial_not_working (opts\<lparr>find_min_xmx_min_memory := Some 0\<rparr>) =
     (if compiler opts = Some ''d8'' then 128 else 1024) \<and>
   initial_working (opts\<lparr>find_min_xmx_max_memory := Some 0\<rparr>) =
     initial_working (opts\<lparr>find_min_xmx_max_memory := None\<rparr>) \<and>
   initial_working (opts\<lparr>find_min_xmx_max_memory := Some 0\<rparr>) = 8192 \<and>
   find_min_xmx e run (opts\<lparr>find_min_xmx_min_memory := Some 0\<rparr>) args =
     find_min_xmx e run (opts\<lparr>find_min_xmx_min_memory := None\<rparr>) args \<and>
   find_min_xmx e run (opts\<lparr>find_min_xmx_max_memory := Some 0\<rparr>) args =
     find_min_xmx e run (opts\<lparr>find_min_xmx_max_memory := None\<rparr>) args"
  by (simp add: find_min_xmx_def report_ignores_bounds initial_not_working_def
      initial_working_def truthy_def cong: option.case_cong prod.case_cong)

theorem zero_override_is_default_witness:
  "initial_not_working
     (defaults\<lparr>compiler := Some ''d8'', find_min_xmx_min_memory := Some 0\<rparr>) = 128 \<and>
   initial_not_working
     (defaults\<lparr>compiler := Some ''r8'', find_min_xmx_min_memory := Some 0\<rparr>) = 1024 \<and>
   initial_working (defaults\<lparr>find_min_xmx_max_memory := Some 0\<rparr>) = 8192"
  using
    zero_override_is_default [of "defaults\<lparr>compiler := Some ''d8''\<rparr>"
      "\<lparr>REPO_ROOT = ''/r8'', cwd = ''/r8'', HEAD_sha1 = ''0'', R8_TEST_RESULTS_BUCKET = ''b''\<rparr>" "\<lambda>k c. 0" "[]"]
    zero_override_is_default [of "defaults\<lparr>compiler := Some ''r8''\<rparr>"
      "\<lparr>REPO_ROOT = ''/r8'', cwd = ''/r8'', HEAD_sha1 = ''0'', R8_TEST_RESULTS_BUCKET = ''b''\<rparr>" "\<lambda>k c. 0" "[]"]
    zero_override_is_default [of defaults
      "\<lparr>REPO_ROOT = ''/r8'', cwd = ''/r8'', HEAD_sha1 = ''0'', R8_TEST_RESULTS_BUCKET = ''b''\<rparr>" "\<lambda>k c. 0" "[]"]
  by simp

subsection \<open>A monotonic attempt\<close>






subsection \<open>The states the loop passes through\<close>

lemma reaches_loop:
  "reaches run range_size s t \<Longrightarrow> search_loop run range_size s = search_loop run range_size t"
proof (induction rule: reaches.induct)
  case reaches_start
  show ?case by simp
next
  case (reaches_step t t')
  from reaches_step.hyps(2,3) have "search_loop run range_size t = search_loop run range_size t'"
    using loop_again [of range_size t run] by simp
  with reaches_step.IH show ?case by simp
qed







subsection \<open>How many passes\<close>









subsection \<open>Where \<open>working\<close> comes from\<close>







subsection \<open>Reading the exit code\<close>

text \<open>\<^const>\<open>str_in\<close> is the substring test.\<close>

lemma starts_with_iff: "starts_with needle hay = (\<exists>rest. hay = needle @ rest)"
  by (induction needle hay rule: starts_with.induct) auto

lemma str_in_iff: "str_in needle hay = (\<exists>before rest. hay = before @ needle @ rest)"
proof (induction hay)
  case Nil
  show ?case by auto
next
  case (Cons d ds)
  show ?case
  proof
    assume "str_in needle (d # ds)"
    then consider "starts_with needle (d # ds)" | "str_in needle ds" by auto
    then show "\<exists>before rest. d # ds = before @ needle @ rest"
    proof cases
      case 1
      then obtain rest where "d # ds = needle @ rest" by (auto simp: starts_with_iff)
      then have "d # ds = [] @ needle @ rest" by simp
      then show ?thesis by blast
    next
      case 2
      with Cons.IH obtain before rest where "ds = before @ needle @ rest" by blast
      then have "d # ds = (d # before) @ needle @ rest" by simp
      then show ?thesis by blast
    qed
  next
    assume "\<exists>before rest. d # ds = before @ needle @ rest"
    then obtain before rest where eq: "d # ds = before @ needle @ rest" by blast
    show "str_in needle (d # ds)"
    proof (cases before)
      case Nil
      with eq have "starts_with needle (d # ds)" by (auto simp: starts_with_iff)
      then show ?thesis by simp
    next
      case (Cons b bs)
      with eq have "ds = bs @ needle @ rest" by simp
      with Cons.IH have "str_in needle ds" by blast
      then show ?thesis by simp
    qed
  qed
qed

text \<open>The loop body branches on the exit code as \<^const>\<open>outcome_of\<close> reads it.\<close>

lemma loop_body_by_outcome:
  "(case outcome_of (code_of run s) of
      Success \<Rightarrow> fst (loop_body run s) = None \<and>
        working (snd (loop_body run s)) = candidate_of s \<and>
        not_working (snd (loop_body run s)) = not_working s
    | OutOfMemory \<Rightarrow> fst (loop_body run s) = None \<and>
        working (snd (loop_body run s)) = working s \<and>
        not_working (snd (loop_body run s)) = candidate_of s
    | Timeout \<Rightarrow> fst (loop_body run s) = None \<and>
        working (snd (loop_body run s)) = working s \<and>
        not_working (snd (loop_body run s)) = candidate_of s
    | OtherFailure c \<Rightarrow> c = code_of run s \<and> fst (loop_body run s) = Some (Returned 2) \<and>
        working (snd (loop_body run s)) = working s \<and>
        not_working (snd (loop_body run s)) = not_working s)"
  by (cases rule: body_cases [of run s])
    (simp_all add: outcome_of_def body_success body_timeout body_oom body_other exit_codes)




subsection \<open>Leaving the search on another failure\<close>

lemma reaches_printed:
  assumes "reaches run range_size s t"
  shows "archived t = archived s \<and>
         ((\<forall>a b. FoundRange a b \<notin> set (printed s)) \<longrightarrow>
          (\<forall>a b. FoundRange a b \<notin> set (printed t)))"
  using assms
proof (induction rule: reaches.induct)
  case reaches_start
  show ?case by simp
next
  case (reaches_step t t')
  from reaches_step.hyps(3) show ?case
  proof (cases rule: body_continue_cases)
    case success
    with reaches_step.IH show ?thesis by auto
  next
    case timeout
    with reaches_step.IH show ?thesis by auto
  next
    case oom
    with reaches_step.IH show ?thesis by auto
  qed
qed

lemma find_min_xmx_leaves:
  assumes reach: "reaches run (find_min_xmx_range_size opts)
                    (start (initial_not_working opts) (initial_working opts)) t"
    and wide: "find_min_xmx_range_size opts < working t - not_working t"
    and other: "code_of run t \<noteq> 0" "code_of run t \<noteq> OOM_EXIT_CODE"
      "code_of run t \<noteq> TIMEOUT_KILL_CODE"
  shows "find_min_xmx e run opts [] =
           Some (Returned 2,
             \<lparr>attempts = attempts t @ [(candidate_of t, code_of run t)],
              printed = printed t @
                [Progress (working t) (not_working t) (candidate_of t), RunningTook,
                 NonOomTimeoutError],
              archived = []\<rparr>)"
    and "\<forall>a b. FoundRange a b \<notin> set (printed t)"
proof -
  let ?s = "start (initial_not_working opts) (initial_working opts)"
  from reaches_printed [OF reach] have np: "\<forall>a b. FoundRange a b \<notin> set (printed t)"
    and ar: "archived t = []"
    by (simp_all add: start_def)
  from np show "\<forall>a b. FoundRange a b \<notin> set (printed t)" .
  have body: "loop_body run t =
     (Some (Returned 2),
      t\<lparr>attempts := attempts t @ [(candidate_of t, code_of run t)],
        printed := printed t @
          [Progress (working t) (not_working t) (candidate_of t), RunningTook,
           NonOomTimeoutError],
        exit_code := code_of run t\<rparr>)"
    using other by (rule body_other)
  have "search_loop run (find_min_xmx_range_size opts) ?s =
        search_loop run (find_min_xmx_range_size opts) t"
    using reach by (rule reaches_loop)
  also have "\<dots> = Some (Some (Returned 2), snd (loop_body run t))"
    using loop_leave [OF wide, of run "Returned 2"] body by simp
  finally show "find_min_xmx e run opts [] =
           Some (Returned 2,
             \<lparr>attempts = attempts t @ [(candidate_of t, code_of run t)],
              printed = printed t @
                [Progress (working t) (not_working t) (candidate_of t), RunningTook,
                 NonOomTimeoutError],
              archived = []\<rparr>)"
    using ar by (simp add: find_min_xmx_def body effects.truncate_def)
qed

text \<open>
  C6. Let the search, called without positional arguments, have reached some state
  of its loop and start another pass there, and let the attempt of that pass return
  a code other than 0, the out-of-memory code and the timeout code. Then
  \<open>find_min_xmx\<close> returns 2, which is not the 0 of a completed search; the failing
  attempt is the last one it made; and no \<open>Found range\<close> line is printed and nothing
  is archived.
\<close>

theorem other_failure_stops_search:
  assumes "reaches run (find_min_xmx_range_size opts)
             (start (initial_not_working opts) (initial_working opts)) t"
    and "find_min_xmx_range_size opts < working t - not_working t"
    and "code_of run t \<noteq> 0" "code_of run t \<noteq> OOM_EXIT_CODE"
      "code_of run t \<noteq> TIMEOUT_KILL_CODE"
  shows "\<exists>fx. find_min_xmx e run opts [] = Some (Returned 2, fx) \<and>
           attempts fx = attempts t @ [(candidate_of t, code_of run t)] \<and>
           (\<forall>a b. FoundRange a b \<notin> set (printed fx)) \<and>
           last (printed fx) = NonOomTimeoutError \<and>
           archived fx = [] \<and> Returned 2 \<noteq> Returned 0"
  using find_min_xmx_leaves(1) [OF assms] find_min_xmx_leaves(2) [OF assms] by simp

theorem other_failure_stops_search_witness:
  "\<exists>fx. find_min_xmx \<lparr>REPO_ROOT = ''/r8'', cwd = ''/r8'', HEAD_sha1 = ''0'', R8_TEST_RESULTS_BUCKET = ''b''\<rparr>
           (\<lambda>k c. if k = 0 then 0 else 17) (defaults\<lparr>compiler := Some ''d8''\<rparr>) [] =
         Some (Returned 2, fx) \<and>
        attempts fx = [(4160, 0), (2144, 17)] \<and>
        (\<forall>a b. FoundRange a b \<notin> set (printed fx)) \<and>
        last (printed fx) = NonOomTimeoutError \<and> archived fx = []"
proof -
  let ?run = "\<lambda>(k::nat) (c::int). if k = 0 then 0 else (17::int)"
  let ?opts = "defaults\<lparr>compiler := Some ''d8''\<rparr>"
  have o: "initial_not_working ?opts = 128" "initial_working ?opts = 8192"
    "find_min_xmx_range_size ?opts = 32"
    by (simp_all add: initial_not_working_def initial_working_def truthy_def defaults_def)
  have r: "reaches ?run (find_min_xmx_range_size ?opts)
      (start (initial_not_working ?opts) (initial_working ?opts))
      (snd (loop_body ?run (start 128 8192)))"
    by (rule reaches_step [OF reaches_start])
      (simp_all add: o start_def loop_body_def Let_def next_candidate_def)
  from other_failure_stops_search [OF r] show ?thesis
    by (simp add: o start_def loop_body_def Let_def next_candidate_def exit_codes)
qed

subsection \<open>What the caller gets on another failure\<close>




subsection \<open>Bounds already within the tolerance\<close>






text \<open>The archive step on a concrete call: where the line goes.\<close>

lemma archive_example:
  "find_min_xmx \<lparr>REPO_ROOT = ''/r8'', cwd = ''/r8/tools'', HEAD_sha1 = ''0a1b'',
      R8_TEST_RESULTS_BUCKET = ''r8-test-results''\<rparr> (\<lambda>k c. 0)
     (defaults\<lparr>compiler := Some ''d8'', app := Some ''r8'',
               find_min_xmx_min_memory := Some 100, find_min_xmx_max_memory := Some 132,
               find_min_xmx_archive := True\<rparr>) [] =
     Some (Returned 0,
       \<lparr>attempts = [],
        printed = [FoundRange 100 132, Running ''git rev-parse HEAD'', EnterDirectory ''/r8'',
                   EnterDirectory ''/r8/tools''],
        archived =
          [(''find_min_xmx_results'',
            ''gs://r8-test-results/find_min_xmx/0a1b/d8/lib/r8/cf/proguarded'',
            FoundRange 100 132)]\<rparr>)"
  by (simp add: find_min_xmx_def initial_not_working_def initial_working_def truthy_def
      defaults_def loop_stop start_def report_def get_version_and_data_def get_type_def
      str_or_def FIND_MIN_XMX_FILE_def FIND_MIN_XMX_DIR_def effects.truncate_def Let_def
      get_HEAD_sha1_def)




end
